theory Spec2Isabelle
  imports Complex_Main
begin

section \<open>Tables as the dashboard sees them\<close>

text \<open>
  The program is one script, \<^verbatim>\<open>dashboard.py\<close>. It reads a CSV file into a pandas
  DataFrame, filters it by two multiselect widgets and writes metrics, two histograms and
  a preview table to a Streamlit page.

  A float is a float64: a rational, an infinity or NaN, and its arithmetic rounds to the
  nearest float64, ties to even (the two zeros are not kept apart). A cell of a table read
  by \<^verbatim>\<open>read_csv\<close> is a string or a number; a missing cell is the float NaN, as
  in pandas.
\<close>

datatype pyfloat = Val rat | PosInf | NegInf | NaN

datatype cell = Str string | Num pyfloat

datatype py_error = KeyError string | TypeError | ValueError | ParserError

type_synonym series = "cell list"

text \<open>
  A DataFrame holds its row labels (the index) and its columns in header order; every
  column has one cell per row label.
\<close>

record dataframe =
  index :: "nat list"
  cols :: "(string \<times> series) list"

definition column_names :: "dataframe \<Rightarrow> string list" where
  "column_names df = map fst (cols df)"

definition wf_dataframe :: "dataframe \<Rightarrow> bool" where
  "wf_dataframe df \<longleftrightarrow>
     distinct (column_names df) \<and> list_all (\<lambda>c. length (snd c) = length (index df)) (cols df)"

text \<open>\<^verbatim>\<open>df[name]\<close>: the column, or KeyError.\<close>

definition getitem :: "dataframe \<Rightarrow> string \<Rightarrow> py_error + series" where
  "getitem df name = (case map_of (cols df) name of None \<Rightarrow> Inl (KeyError name) | Some s \<Rightarrow> Inr s)"

text \<open>\<^verbatim>\<open>df[name] = s\<close>: replaces the column of that name, or appends a new one.\<close>

definition setitem :: "dataframe \<Rightarrow> string \<Rightarrow> series \<Rightarrow> dataframe" where
  "setitem df name s =
     (if name \<in> set (column_names df)
      then df\<lparr>cols := map (\<lambda>c. if fst c = name then (name, s) else c) (cols df)\<rparr>
      else df\<lparr>cols := cols df @ [(name, s)]\<rparr>)"

text \<open>\<^verbatim>\<open>len(df)\<close> and \<^verbatim>\<open>df.empty\<close> (some axis has length 0).\<close>

definition len :: "dataframe \<Rightarrow> nat" where
  "len df = length (index df)"

definition empty_df :: "dataframe \<Rightarrow> bool" where
  "empty_df df \<longleftrightarrow> index df = [] \<or> cols df = []"

text \<open>\<^verbatim>\<open>s.apply(f)\<close>, \<^verbatim>\<open>s.isin(values)\<close>, \<^verbatim>\<open>a & b\<close> on boolean series.
  \<^verbatim>\<open>isin\<close> finds NaN among the values when NaN is one of them.\<close>

definition apply_series :: "(cell \<Rightarrow> cell) \<Rightarrow> series \<Rightarrow> series" where
  "apply_series f s = map f s"

definition isin :: "series \<Rightarrow> cell list \<Rightarrow> bool list" where
  "isin s vals = map (\<lambda>x. x \<in> set vals) s"

definition mask_and :: "bool list \<Rightarrow> bool list \<Rightarrow> bool list" where
  "mask_and a b = map2 (\<and>) a b"

text \<open>\<^verbatim>\<open>df[mask]\<close>: the rows at which the mask is True, in the order of the table.\<close>

definition select :: "bool list \<Rightarrow> 'a list \<Rightarrow> 'a list" where
  "select msk xs = map snd (filter fst (zip msk xs))"

definition getitem_mask :: "dataframe \<Rightarrow> bool list \<Rightarrow> dataframe" where
  "getitem_mask df msk =
     \<lparr>index = select msk (index df), cols = map (\<lambda>c. (fst c, select msk (snd c))) (cols df)\<rparr>"

text \<open>\<^verbatim>\<open>df.head(n)\<close>.\<close>

definition head :: "nat \<Rightarrow> dataframe \<Rightarrow> dataframe" where
  "head n df = \<lparr>index = take n (index df), cols = map (\<lambda>c. (fst c, take n (snd c))) (cols df)\<rparr>"

text \<open>\<^verbatim>\<open>s.unique()\<close>: the distinct values in order of first appearance.\<close>

fun unique_from :: "'a list \<Rightarrow> 'a list \<Rightarrow> 'a list" where
  "unique_from seen [] = []"
| "unique_from seen (x # xs) =
     (if x \<in> set seen then unique_from seen xs else x # unique_from (x # seen) xs)"

definition unique :: "'a list \<Rightarrow> 'a list" where
  "unique xs = unique_from [] xs"

text \<open>
  Rounding a rational to float64. For \<open>a > 0\<close>, \<open>exponent a\<close> is the \<open>e\<close> with
  \<open>2^e \<le> a < 2^(e+1)\<close>; the spacing of the floats around \<open>a\<close> is \<open>2^(e-52)\<close>, and
  \<open>2^(-1074)\<close> below the normal range; a result of \<open>2^1024\<close> or more is an infinity.
\<close>

function ilog2 :: "int \<Rightarrow> int" where
  "ilog2 n = (if n < 2 then 0 else 1 + ilog2 (n div 2))"
  by pat_completeness auto
termination
  by (relation "measure nat") auto

declare ilog2.simps [simp del]

definition pow2 :: "int \<Rightarrow> rat" where
  "pow2 k = (if 0 \<le> k then 2 ^ nat k else 1 / 2 ^ nat (- k))"

definition exponent :: "rat \<Rightarrow> int" where
  "exponent a = (if 1 \<le> a then ilog2 \<lfloor>a\<rfloor> else - (1 + ilog2 (\<lceil>1 / a\<rceil> - 1)))"

definition round_half_even :: "rat \<Rightarrow> int" where
  "round_half_even y =
     (let f = \<lfloor>y\<rfloor>; d = y - of_int f in
      if d < 1 / 2 then f else if 1 / 2 < d then f + 1 else if even f then f else f + 1)"

definition round64 :: "rat \<Rightarrow> pyfloat" where
  "round64 q =
     (if q = 0 then Val 0
      else
        (let a = \<bar>q\<bar>;
             ulp = pow2 (max (exponent a) (- 1022) - 52);
             r = of_int (round_half_even (a / ulp)) * ulp in
         if pow2 1024 \<le> r then (if 0 < q then PosInf else NegInf)
         else Val (if 0 < q then r else - r)))"

text \<open>Float addition, negation, subtraction, division by a count, and comparison.\<close>

fun fadd :: "pyfloat \<Rightarrow> pyfloat \<Rightarrow> pyfloat" where
  "fadd NaN y = NaN"
| "fadd x NaN = NaN"
| "fadd PosInf NegInf = NaN"
| "fadd NegInf PosInf = NaN"
| "fadd PosInf y = PosInf"
| "fadd x PosInf = PosInf"
| "fadd NegInf y = NegInf"
| "fadd x NegInf = NegInf"
| "fadd (Val a) (Val b) = round64 (a + b)"

fun fneg :: "pyfloat \<Rightarrow> pyfloat" where
  "fneg (Val a) = Val (- a)"
| "fneg PosInf = NegInf"
| "fneg NegInf = PosInf"
| "fneg NaN = NaN"

definition fsub :: "pyfloat \<Rightarrow> pyfloat \<Rightarrow> pyfloat" where
  "fsub x y = fadd x (fneg y)"

fun fdiv_count :: "pyfloat \<Rightarrow> nat \<Rightarrow> pyfloat" where
  "fdiv_count (Val a) n = round64 (a / of_nat n)"
| "fdiv_count x n = x"

fun fle :: "pyfloat \<Rightarrow> pyfloat \<Rightarrow> bool" where
  "fle NaN y \<longleftrightarrow> False"
| "fle x NaN \<longleftrightarrow> False"
| "fle NegInf y \<longleftrightarrow> True"
| "fle x PosInf \<longleftrightarrow> True"
| "fle (Val a) (Val b) \<longleftrightarrow> a \<le> b"
| "fle x y \<longleftrightarrow> False"

text \<open>The value of a numeric cell as a float64 (an integer cell is converted).\<close>

fun float64_of :: "pyfloat \<Rightarrow> pyfloat" where
  "float64_of (Val r) = round64 r"
| "float64_of x = x"

text \<open>
  \<^verbatim>\<open>s.mean()\<close>: NaN cells are skipped, a string cell raises TypeError, and the mean
  of no values is NaN; otherwise the values are added as float64, one at a time in the
  order of the column, and the sum is divided by their count, which is below \<open>2^53\<close>
  and so a float64 itself. (numpy groups the additions of a long column otherwise; the
  sum is the same whenever no addition rounds, as for a column of 0/1 labels.)
\<close>

fun values_skipna :: "series \<Rightarrow> py_error + pyfloat list" where
  "values_skipna [] = Inr []"
| "values_skipna (Str s # xs) = Inl TypeError"
| "values_skipna (Num NaN # xs) = values_skipna xs"
| "values_skipna (Num v # xs) =
     (case values_skipna xs of Inl e \<Rightarrow> Inl e | Inr vs \<Rightarrow> Inr (v # vs))"

definition mean :: "series \<Rightarrow> py_error + pyfloat" where
  "mean s =
     (case values_skipna s of
        Inl e \<Rightarrow> Inl e
      | Inr vs \<Rightarrow>
          Inr (if vs = [] then NaN
               else fdiv_count (foldl fadd (Val 0) (map float64_of vs)) (length vs)))"

section \<open>The script\<close>

text \<open>
  The data file is missing, or \<^verbatim>\<open>read_csv\<close> raises on it, or it parses to a table.
\<close>

datatype datafile = Missing | Unparseable | Parsed dataframe

text \<open>
  What the script writes to the page, in order. The three error texts of
  \<^verbatim>\<open>load_data\<close> are: the file was not found at its path; put the CSV file in a data
  folder next to the script; neither churn column found, re-run the cleaning pipeline.
  \<^verbatim>\<open>set_page_config\<close> and \<^verbatim>\<open>st.columns\<close> write no element.
\<close>

datatype message = FileNotFound | PlaceFileInDataFolder | NoChurnColumn

datatype metric_value = Count nat | Percent pyfloat

record figure =
  fig_data :: dataframe
  fig_x :: string
  fig_color :: string
  fig_title :: string
  fig_category_orders :: "string list"

datatype st_event =
    Error message
  | Title string
  | SidebarHeader string
  | Multiselect string "cell list" "cell list"
  | Header string
  | Metric string metric_value "metric_value option"
  | Markdown string
  | PlotlyChart figure
  | Dataframe dataframe

datatype outcome = Completed | Stopped | Raised py_error

text \<open>The lambda of line 28: \<^verbatim>\<open>1 if x == "Yes" else 0\<close>.\<close>

definition churn_flag :: "cell \<Rightarrow> cell" where
  "churn_flag x = (if x = Str ''Yes'' then Num (Val 1) else Num (Val 0))"

text \<open>
  \<^verbatim>\<open>load_data\<close> returns the elements it wrote and either the exception it raised or
  its return value, where \<open>None\<close> is Python's None. One run of the script is modelled:
  \<^verbatim>\<open>st.cache_data\<close> gives a later run the same return value and the same elements.
\<close>

definition load_data :: "datafile \<Rightarrow> st_event list \<times> (py_error + dataframe option)" where
  "load_data f =
     (case f of
        Missing \<Rightarrow> ([Error FileNotFound, Error PlaceFileInDataFolder], Inr None)
      | Unparseable \<Rightarrow> ([], Inl ParserError)
      | Parsed df \<Rightarrow>
          if ''churn_label'' \<notin> set (column_names df) then
            if ''Churn'' \<in> set (column_names df) then
              (case getitem df ''Churn'' of
                 Inl e \<Rightarrow> ([], Inl e)
               | Inr churn \<Rightarrow>
                   ([], Inr (Some (setitem df ''churn_label'' (apply_series churn_flag churn)))))
            else ([Error NoChurnColumn], Inr None)
          else ([], Inr (Some df)))"

text \<open>
  A multiselect returns its default until the user changes the selection; \<open>Some sel\<close> is
  the user's selection.
\<close>

record choices =
  contract_choice :: "cell list option"
  internet_choice :: "cell list option"

definition multiselect :: "cell list \<Rightarrow> cell list \<Rightarrow> cell list option \<Rightarrow> cell list" where
  "multiselect opts dflt user = (case user of None \<Rightarrow> dflt | Some sel \<Rightarrow> sel)"

text \<open>Lines 65 to 68.\<close>

definition filtered_df :: "dataframe \<Rightarrow> cell list \<Rightarrow> cell list \<Rightarrow> py_error + dataframe" where
  "filtered_df df contract_filter internet_filter =
     (case getitem df ''Contract'' of
        Inl e \<Rightarrow> Inl e
      | Inr contract \<Rightarrow>
          (case getitem df ''InternetService'' of
             Inl e \<Rightarrow> Inl e
           | Inr internet \<Rightarrow>
               Inr (getitem_mask df
                     (mask_and (isin contract contract_filter) (isin internet internet_filter)))))"

text \<open>Lines 73 and 74.\<close>

definition overall_churn_rate :: "dataframe \<Rightarrow> py_error + pyfloat" where
  "overall_churn_rate df =
     (case getitem df ''churn_label'' of Inl e \<Rightarrow> Inl e | Inr s \<Rightarrow> mean s)"

definition segment_churn_rate :: "dataframe \<Rightarrow> py_error + pyfloat" where
  "segment_churn_rate fdf =
     (if \<not> empty_df fdf
      then (case getitem fdf ''churn_label'' of Inl e \<Rightarrow> Inl e | Inr s \<Rightarrow> mean s)
      else Inr (Val 0))"

text \<open>\<^verbatim>\<open>px.histogram\<close> raises ValueError when a named column is not in the table.\<close>

definition px_histogram ::
  "dataframe \<Rightarrow> string \<Rightarrow> string \<Rightarrow> string \<Rightarrow> string list \<Rightarrow> py_error + figure" where
  "px_histogram df xcol ccol ttl orders =
     (if xcol \<in> set (column_names df) \<and> ccol \<in> set (column_names df)
      then Inr \<lparr>fig_data = df, fig_x = xcol, fig_color = ccol, fig_title = ttl,
                fig_category_orders = orders\<rparr>
      else Inl ValueError)"

text \<open>Lines 48 to 115: the page below the title, for a loaded table.\<close>

definition page :: "dataframe \<Rightarrow> choices \<Rightarrow> st_event list \<times> outcome" where
  "page df ch =
     (let ev0 = [SidebarHeader ''Customer Filters''] in
      case getitem df ''Contract'' of
        Inl e \<Rightarrow> (ev0, Raised e)
      | Inr contract \<Rightarrow>
     (let contract_filter = multiselect (unique contract) (unique contract) (contract_choice ch);
          ev1 = ev0 @ [Multiselect ''Select Contract Type'' (unique contract) contract_filter] in
      case getitem df ''InternetService'' of
        Inl e \<Rightarrow> (ev1, Raised e)
      | Inr internet \<Rightarrow>
     (let internet_filter = multiselect (unique internet) (unique internet) (internet_choice ch);
          ev2 = ev1 @ [Multiselect ''Select Internet Service'' (unique internet) internet_filter] in
      case filtered_df df contract_filter internet_filter of
        Inl e \<Rightarrow> (ev2, Raised e)
      | Inr fdf \<Rightarrow>
     (case overall_churn_rate df of
        Inl e \<Rightarrow> (ev2, Raised e)
      | Inr overall \<Rightarrow>
     (case segment_churn_rate fdf of
        Inl e \<Rightarrow> (ev2, Raised e)
      | Inr segment \<Rightarrow>
     (let ev3 = ev2 @
            [Header ''Key Metrics'',
             Metric ''Total Customers in Segment'' (Count (len fdf)) None,
             Metric ''Overall Churn Rate'' (Percent overall) None,
             Metric ''Segment Churn Rate'' (Percent segment)
               (Some (Percent (fsub segment overall))),
             Markdown ''---'',
             Header ''Visual Analysis''] in
      case px_histogram fdf ''Contract'' ''churn_label'' ''Churn by Contract Type'' [] of
        Inl e \<Rightarrow> (ev3, Raised e)
      | Inr fig_contract \<Rightarrow>
     (let ev4 = ev3 @ [PlotlyChart fig_contract] in
      case px_histogram fdf ''tenure_bucket'' ''churn_label'' ''Churn by Tenure''
             [''0-1 Year'', ''1-2 Years'', ''2-4 Years'', ''4+ Years''] of
        Inl e \<Rightarrow> (ev4, Raised e)
      | Inr fig_tenure \<Rightarrow>
          (ev4 @ [PlotlyChart fig_tenure, Header ''Filtered Customer Data'',
                  Dataframe (head 10 fdf)], Completed))))))))"

text \<open>
  The title of line 41: the bar-chart sign U+1F4CA (four bytes in UTF-8), a space and the
  words.
\<close>

definition dashboard_title :: string where
  "dashboard_title =
     [CHR 0xF0, CHR 0x9F, CHR 0x93, CHR 0x8A] @ '' Telco Customer Churn Dashboard''"

text \<open>
  The whole script: \<^verbatim>\<open>load_data\<close>, the title, \<^verbatim>\<open>st.stop()\<close> when no table came
  back, and the page otherwise.
\<close>

definition dashboard :: "datafile \<Rightarrow> choices \<Rightarrow> st_event list \<times> outcome" where
  "dashboard f ch =
     (case load_data f of
        (ev, Inl e) \<Rightarrow> (ev, Raised e)
      | (ev, Inr loaded) \<Rightarrow>
          (let ev' = ev @ [Title dashboard_title] in
           case loaded of
             None \<Rightarrow> (ev', Stopped)
           | Some df \<Rightarrow> (case page df ch of (evs, out) \<Rightarrow> (ev' @ evs, out))))"

section \<open>Notions the properties are stated with\<close>

text \<open>An element that is one of the error texts of \<^verbatim>\<open>load_data\<close>.\<close>

definition is_error_text :: "st_event \<Rightarrow> bool" where
  "is_error_text e = (case e of Error m \<Rightarrow> True | _ \<Rightarrow> False)"

text \<open>The user has touched neither multiselect.\<close>

definition no_choice :: choices where
  "no_choice = \<lparr>contract_choice = None, internet_choice = None\<rparr>"

text \<open>
  A table that already has \<^verbatim>\<open>churn_label\<close>, with values that are not 0/1 and that
  disagree with its \<^verbatim>\<open>Churn\<close> column.
\<close>

definition labelled_table :: dataframe where
  "labelled_table =
     \<lparr>index = [0, 1],
      cols = [(''Churn'', [Str ''Yes'', Str ''No'']),
              (''churn_label'', [Num (Val 0), Num (Val 7)])]\<rparr>"

text \<open>
  The table of the worked scenario of the specification, with an internet-service and a
  tenure column added so that the whole page renders.
\<close>

definition scenario_table :: dataframe where
  "scenario_table =
     \<lparr>index = [0, 1, 2],
      cols = [(''Contract'', [Str ''Month-to-month'', Str ''Month-to-month'', Str ''Two year'']),
              (''InternetService'', [Str ''DSL'', Str ''Fiber optic'', Str ''DSL'']),
              (''tenure_bucket'', [Str ''0-1 Year'', Str ''4+ Years'', Str ''4+ Years'']),
              (''Churn'', [Str ''Yes'', Str ''No'', Str ''No''])]\<rparr>"

definition scenario_loaded :: dataframe where
  "scenario_loaded =
     setitem scenario_table ''churn_label'' [Num (Val 1), Num (Val 0), Num (Val 0)]"

definition scenario_segment :: dataframe where
  "scenario_segment =
     \<lparr>index = [0, 1],
      cols = [(''Contract'', [Str ''Month-to-month'', Str ''Month-to-month'']),
              (''InternetService'', [Str ''DSL'', Str ''Fiber optic'']),
              (''tenure_bucket'', [Str ''0-1 Year'', Str ''4+ Years'']),
              (''Churn'', [Str ''Yes'', Str ''No'']),
              (''churn_label'', [Num (Val 1), Num (Val 0)])]\<rparr>"

definition scenario_choice :: choices where
  "scenario_choice =
     \<lparr>contract_choice = Some [Str ''Month-to-month''], internet_choice = None\<rparr>"

text \<open>A CSV file that has its header line and no data line.\<close>

definition header_only_table :: dataframe where
  "header_only_table =
     \<lparr>index = [],
      cols = [(''Contract'', []), (''InternetService'', []), (''tenure_bucket'', []),
              (''Churn'', [])]\<rparr>"

definition header_only_loaded :: dataframe where
  "header_only_loaded = setitem header_only_table ''churn_label'' []"

text \<open>
  The rows of a table, as the specification speaks of them: row \<open>i\<close> is its label and
  the cell of every column at position \<open>i\<close>. A row is selected when its contract type is
  among the selected contract types and its internet service among the selected internet
  services.
\<close>

type_synonym row = "nat \<times> (string \<times> cell) list"

definition row_at :: "dataframe \<Rightarrow> nat \<Rightarrow> row" where
  "row_at df i = (index df ! i, map (\<lambda>c. (fst c, snd c ! i)) (cols df))"

definition rows_of :: "dataframe \<Rightarrow> row list" where
  "rows_of df = map (row_at df) [0..<length (index df)]"

definition row_value :: "row \<Rightarrow> string \<Rightarrow> cell option" where
  "row_value r name = map_of (snd r) name"

definition row_selected :: "cell list \<Rightarrow> cell list \<Rightarrow> row \<Rightarrow> bool" where
  "row_selected contract_filter internet_filter r =
     (case row_value r ''Contract'' of
        None \<Rightarrow> False
      | Some c \<Rightarrow>
          (case row_value r ''InternetService'' of
             None \<Rightarrow> False
           | Some i \<Rightarrow> c \<in> set contract_filter \<and> i \<in> set internet_filter))"

text \<open>The positions at which a mask is True.\<close>

definition picked :: "bool list \<Rightarrow> nat list" where
  "picked msk = filter (\<lambda>i. msk ! i) [0..<length msk]"

text \<open>The values of the metric labelled Overall Churn Rate among the elements of a page.\<close>

fun overall_shown :: "st_event list \<Rightarrow> metric_value list" where
  "overall_shown [] = []"
| "overall_shown (Metric label v d # es) =
     (if label = ''Overall Churn Rate'' then v # overall_shown es else overall_shown es)"
| "overall_shown (e # es) = overall_shown es"

section \<open>Columns of a table\<close>

lemma getitem_Inr_iff: "(\<exists>s. getitem df name = Inr s) \<longleftrightarrow> name \<in> set (column_names df)"
proof (cases "map_of (cols df) name")
  case None
  then have "name \<notin> fst ` set (cols df)"
    by (simp add: map_of_eq_None_iff)
  then show ?thesis
    by (simp add: getitem_def column_names_def None)
next
  case (Some s)
  then have "(name, s) \<in> set (cols df)"
    by (rule map_of_SomeD)
  then have "name \<in> fst ` set (cols df)"
    by force
  with Some show ?thesis
    by (simp add: getitem_def column_names_def)
qed

lemma getitem_in_cols: "getitem df name = Inr s \<Longrightarrow> (name, s) \<in> set (cols df)"
  by (auto simp: getitem_def split: option.splits dest: map_of_SomeD)

lemma getitem_appended:
  "name \<notin> set (column_names df) \<Longrightarrow> getitem (df\<lparr>cols := cols df @ [(name, s)]\<rparr>) name = Inr s"
proof -
  assume "name \<notin> set (column_names df)"
  then have "map_of (cols df) name = None"
    by (simp add: column_names_def map_of_eq_None_iff)
  then show ?thesis
    by (simp add: getitem_def map_add_def)
qed

section \<open>Loading\<close>

lemma load_data_None_iff:
  "snd (load_data f) = Inr None \<longleftrightarrow>
     f = Missing \<or>
     (\<exists>df. f = Parsed df \<and> ''churn_label'' \<notin> set (column_names df) \<and>
            ''Churn'' \<notin> set (column_names df))"
proof (cases f)
  case Missing
  then show ?thesis by (simp add: load_data_def)
next
  case Unparseable
  then show ?thesis by (simp add: load_data_def)
next
  case (Parsed df)
  show ?thesis
  proof (cases "''Churn'' \<in> set (column_names df)")
    case True
    then obtain churn where "getitem df ''Churn'' = Inr churn"
      using getitem_Inr_iff by blast
    with Parsed True show ?thesis by (simp add: load_data_def)
  next
    case False
    with Parsed show ?thesis by (simp add: load_data_def)
  qed
qed

lemma load_data_None_events:
  assumes "snd (load_data f) = Inr None"
  shows "fst (load_data f) = [Error FileNotFound, Error PlaceFileInDataFolder] \<or>
         fst (load_data f) = [Error NoChurnColumn]"
  using assms unfolding load_data_None_iff by (auto simp: load_data_def)

lemma load_data_events_only_on_None:
  assumes "fst (load_data f) \<noteq> []"
  shows "snd (load_data f) = Inr None"
proof (cases f)
  case Missing
  then show ?thesis by (simp add: load_data_def)
next
  case Unparseable
  with assms show ?thesis by (simp add: load_data_def)
next
  case (Parsed df)
  with assms show ?thesis
    by (simp add: load_data_def split: if_splits sum.splits)
qed

lemma load_data_events_are_errors: "list_all is_error_text (fst (load_data f))"
proof (cases "fst (load_data f) = []")
  case True
  then show ?thesis by simp
next
  case False
  then have "snd (load_data f) = Inr None"
    by (rule load_data_events_only_on_None)
  from load_data_None_events [OF this] show ?thesis
    by (auto simp: is_error_text_def)
qed

lemma dashboard_stops:
  assumes "snd (load_data f) = Inr None"
  shows "dashboard f ch = (fst (load_data f) @ [Title dashboard_title], Stopped)"
  using assms by (cases "load_data f") (simp add: dashboard_def)

text \<open>
  C10. A parsed table that already has a \<^verbatim>\<open>churn_label\<close> column is returned by
  \<^verbatim>\<open>load_data\<close> exactly as parsed, with no message: its labels are neither checked
  nor recomputed, and a \<^verbatim>\<open>Churn\<close> column beside them changes nothing.
\<close>

theorem load_data_keeps_churn_label:
  assumes "''churn_label'' \<in> set (column_names df)"
  shows "load_data (Parsed df) = ([], Inr (Some df))"
  using assms by (simp add: load_data_def)

theorem load_data_keeps_churn_label_witness:
  "''churn_label'' \<in> set (column_names labelled_table) \<and>
   ''Churn'' \<in> set (column_names labelled_table) \<and>
   load_data (Parsed labelled_table) = ([], Inr (Some labelled_table))"
proof -
  have h: "''churn_label'' \<in> set (column_names labelled_table)"
    by (simp add: labelled_table_def column_names_def)
  have "''Churn'' \<in> set (column_names labelled_table)"
    by (simp add: labelled_table_def column_names_def)
  with h load_data_keeps_churn_label [OF h] show ?thesis
    by simp
qed

text \<open>
  C1. For a parsed table without a \<^verbatim>\<open>churn_label\<close> column and with a \<^verbatim>\<open>Churn\<close>
  column, \<^verbatim>\<open>load_data\<close> returns the table with one column appended,
  \<^verbatim>\<open>churn_label\<close>, which has in every row 1 where \<^verbatim>\<open>Churn\<close> is the string Yes and 0
  where it is anything else.
\<close>

theorem load_data_derives_churn_label:
  assumes absent: "''churn_label'' \<notin> set (column_names df)"
    and present: "''Churn'' \<in> set (column_names df)"
  shows "\<exists>churn label.
           getitem df ''Churn'' = Inr churn \<and>
           load_data (Parsed df) =
             ([], Inr (Some (df\<lparr>cols := cols df @ [(''churn_label'', label)]\<rparr>))) \<and>
           getitem (df\<lparr>cols := cols df @ [(''churn_label'', label)]\<rparr>) ''churn_label'' = Inr label \<and>
           length label = length churn \<and>
           (\<forall>i < length churn.
              label ! i = (if churn ! i = Str ''Yes'' then Num (Val 1) else Num (Val 0)))"
proof -
  from present obtain churn where churn: "getitem df ''Churn'' = Inr churn"
    using getitem_Inr_iff by blast
  let ?label = "apply_series churn_flag churn"
  have "load_data (Parsed df) =
          ([], Inr (Some (df\<lparr>cols := cols df @ [(''churn_label'', ?label)]\<rparr>)))"
    using absent present churn by (simp add: load_data_def setitem_def)
  moreover have "getitem (df\<lparr>cols := cols df @ [(''churn_label'', ?label)]\<rparr>) ''churn_label'' = Inr ?label"
    using absent by (rule getitem_appended)
  moreover have "length ?label = length churn"
    by (simp add: apply_series_def)
  moreover have "\<forall>i < length churn.
       ?label ! i = (if churn ! i = Str ''Yes'' then Num (Val 1) else Num (Val 0))"
    by (simp add: apply_series_def churn_flag_def)
  ultimately show ?thesis
    using churn by blast
qed

theorem load_data_derives_churn_label_witness:
  "''churn_label'' \<notin> set (column_names scenario_table) \<and>
   ''Churn'' \<in> set (column_names scenario_table) \<and>
   (\<exists>churn label.
      getitem scenario_table ''Churn'' = Inr churn \<and>
      load_data (Parsed scenario_table) =
        ([], Inr (Some (scenario_table\<lparr>cols := cols scenario_table @ [(''churn_label'', label)]\<rparr>))) \<and>
      getitem (scenario_table\<lparr>cols := cols scenario_table @ [(''churn_label'', label)]\<rparr>)
        ''churn_label'' = Inr label \<and>
      length label = length churn \<and>
      (\<forall>i < length churn.
         label ! i = (if churn ! i = Str ''Yes'' then Num (Val 1) else Num (Val 0))))"
proof -
  have a: "''churn_label'' \<notin> set (column_names scenario_table)"
    by (simp add: scenario_table_def column_names_def)
  have p: "''Churn'' \<in> set (column_names scenario_table)"
    by (simp add: scenario_table_def column_names_def)
  from a p load_data_derives_churn_label [OF a p] show ?thesis
    by blast
qed

section \<open>Halting\<close>

lemma page_never_stops: "snd (page df ch) \<noteq> Stopped"
  by (simp add: page_def Let_def split: sum.split)

lemma dashboard_Stopped_iff: "snd (dashboard f ch) = Stopped \<longleftrightarrow> snd (load_data f) = Inr None"
proof (cases "load_data f")
  case (Pair ev r)
  show ?thesis
  proof (cases r)
    case (Inl e)
    with Pair show ?thesis by (simp add: dashboard_def)
  next
    case (Inr loaded)
    show ?thesis
    proof (cases loaded)
      case None
      with Pair Inr show ?thesis by (simp add: dashboard_def)
    next
      case (Some df)
      with Pair Inr page_never_stops [of df ch] show ?thesis
        by (cases "page df ch") (simp add: dashboard_def)
    qed
  qed
qed

text \<open>
  C3. \<^verbatim>\<open>load_data\<close> returns None exactly when the data file is missing or the parsed
  table has neither a \<^verbatim>\<open>churn_label\<close> nor a \<^verbatim>\<open>Churn\<close> column; it writes messages
  exactly in that case, and all of them are error texts; and the script ends in
  \<^verbatim>\<open>st.stop()\<close> exactly in that case. (A file on which \<^verbatim>\<open>read_csv\<close> raises
  makes \<^verbatim>\<open>load_data\<close> raise: it returns nothing, neither None nor a table.)
\<close>

theorem load_data_failure:
  "(snd (load_data f) = Inr None \<longleftrightarrow>
      f = Missing \<or>
      (\<exists>df. f = Parsed df \<and> ''churn_label'' \<notin> set (column_names df) \<and>
             ''Churn'' \<notin> set (column_names df))) \<and>
   (fst (load_data f) \<noteq> [] \<longleftrightarrow> snd (load_data f) = Inr None) \<and>
   list_all is_error_text (fst (load_data f)) \<and>
   (snd (dashboard f ch) = Stopped \<longleftrightarrow> snd (load_data f) = Inr None)"
proof -
  have "fst (load_data f) \<noteq> [] \<longleftrightarrow> snd (load_data f) = Inr None"
    using load_data_None_events [of f] load_data_events_only_on_None [of f] by auto
  moreover have "list_all is_error_text (fst (load_data f))"
    by (rule load_data_events_are_errors)
  ultimately show ?thesis
    using load_data_None_iff [of f] dashboard_Stopped_iff [of f ch] by blast
qed

theorem load_data_failure_witness:
  "snd (load_data Missing) = Inr None \<and>
   fst (load_data Missing) \<noteq> [] \<and>
   list_all is_error_text (fst (load_data Missing)) \<and>
   snd (dashboard Missing no_choice) = Stopped \<and>
   snd (load_data (Parsed \<lparr>index = [0], cols = [(''Contract'', [Str ''One year''])]\<rparr>)) = Inr None \<and>
   snd (dashboard (Parsed \<lparr>index = [0], cols = [(''Contract'', [Str ''One year''])]\<rparr>) no_choice)
     = Stopped"
  using load_data_failure [of Missing no_choice]
    load_data_failure [of "Parsed \<lparr>index = [0], cols = [(''Contract'', [Str ''One year''])]\<rparr>" no_choice]
  by (simp add: column_names_def)

text \<open>
  C9, as stated: when loading fails the page shows the error text only. It does not: the
  title is written at line 41, before the test of line 44, so with the file missing the
  page holds the two error texts and then the title.
\<close>

theorem failed_load_shows_title_counterexample:
  "snd (load_data Missing) = Inr None \<and>
   fst (dashboard Missing no_choice) =
     [Error FileNotFound, Error PlaceFileInDataFolder, Title dashboard_title] \<and>
   \<not> list_all is_error_text (fst (dashboard Missing no_choice))"
  by (simp add: load_data_def dashboard_def is_error_text_def)

text \<open>
  C9, amended. When \<^verbatim>\<open>load_data\<close> returns None, the page holds the error texts (at
  least one), then the dashboard title, and nothing else: the script stops there, before
  the sidebar, the metrics, the charts and the table.
\<close>

theorem failed_load_renders_title_only:
  assumes "snd (load_data f) = Inr None"
  shows "\<exists>errs. errs \<noteq> [] \<and> list_all is_error_text errs \<and>
           dashboard f ch = (errs @ [Title dashboard_title], Stopped)"
proof -
  from load_data_None_events [OF assms]
  have "fst (load_data f) \<noteq> [] \<and> list_all is_error_text (fst (load_data f))"
    by (auto simp: is_error_text_def)
  with dashboard_stops [OF assms, of ch] show ?thesis
    by blast
qed

theorem failed_load_renders_title_only_witness:
  "snd (load_data Missing) = Inr None \<and>
   (\<exists>errs. errs \<noteq> [] \<and> list_all is_error_text errs \<and>
      dashboard Missing no_choice = (errs @ [Title dashboard_title], Stopped))"
proof -
  have h: "snd (load_data Missing) = Inr None"
    by (simp add: load_data_def)
  from h failed_load_renders_title_only [OF h, of no_choice] show ?thesis
    by blast
qed

section \<open>Masks and selections\<close>

lemma select_Nil [simp]: "select [] xs = []" "select msk [] = []"
  by (simp_all add: select_def)

lemma select_Cons [simp]:
  "select (b # msk) (x # xs) = (if b then x # select msk xs else select msk xs)"
  by (simp add: select_def)

lemma select_none: "\<forall>b \<in> set msk. \<not> b \<Longrightarrow> select msk xs = []"
  by (auto simp: select_def filter_empty_conv dest: set_zip_leftD)

lemma select_all:
  assumes "\<forall>b \<in> set msk. b" and "length xs \<le> length msk"
  shows "select msk xs = xs"
proof -
  have "filter fst (zip msk xs) = zip msk xs"
    using assms(1) by (auto simp: filter_id_conv dest: set_zip_leftD)
  with assms(2) show ?thesis
    by (simp add: select_def map_snd_zip_take)
qed

lemma set_select_subset: "set (select msk xs) \<subseteq> set xs"
  by (auto simp: select_def dest: set_zip_rightD)

lemma picked_Cons:
  "picked (b # msk) = (if b then 0 # map Suc (picked msk) else map Suc (picked msk))"
proof -
  have "[0..<Suc (length msk)] = 0 # [Suc 0..<Suc (length msk)]"
    by (rule upt_conv_Cons) simp
  also have "\<dots> = 0 # map Suc [0..<length msk]"
    by (simp only: map_Suc_upt)
  finally have "[0..<length (b # msk)] = 0 # map Suc [0..<length msk]"
    by simp
  then show ?thesis
    by (simp add: picked_def filter_map comp_def)
qed

lemma select_picked:
  "length msk = length xs \<Longrightarrow> select msk xs = map (\<lambda>i. xs ! i) (picked msk)"
proof (induction msk xs rule: list_induct2)
  case Nil
  then show ?case by (simp add: picked_def)
next
  case (Cons b msk x xs)
  then show ?case by (simp add: picked_Cons comp_def)
qed

lemma length_mask_and: "length (mask_and a b) = min (length a) (length b)"
  by (simp add: mask_and_def)

lemma mask_and_False_left: "\<forall>b \<in> set a. \<not> b \<Longrightarrow> \<forall>b \<in> set (mask_and a a'). \<not> b"
  by (auto simp: mask_and_def dest: set_zip_leftD)

lemma mask_and_False_right: "\<forall>b \<in> set a'. \<not> b \<Longrightarrow> \<forall>b \<in> set (mask_and a a'). \<not> b"
  by (auto simp: mask_and_def dest: set_zip_rightD)

lemma mask_and_True:
  "\<forall>b \<in> set a. b \<Longrightarrow> \<forall>b \<in> set a'. b \<Longrightarrow> \<forall>b \<in> set (mask_and a a'). b"
  by (auto simp: mask_and_def dest: set_zip_leftD set_zip_rightD)

lemma isin_no_values: "set vals = {} \<Longrightarrow> \<forall>b \<in> set (isin s vals). \<not> b"
  by (simp add: isin_def)

lemma isin_all_values: "set s \<subseteq> set vals \<Longrightarrow> \<forall>b \<in> set (isin s vals). b"
  by (auto simp: isin_def)

lemma length_isin: "length (isin s vals) = length s"
  by (simp add: isin_def)

lemma set_unique_from: "set (unique_from seen xs) = set xs - set seen"
  by (induction xs arbitrary: seen) auto

lemma set_unique: "set (unique xs) = set xs"
  by (simp add: unique_def set_unique_from)

lemma distinct_unique_from: "distinct (unique_from seen xs)"
  by (induction xs arbitrary: seen) (auto simp: set_unique_from)

section \<open>Filtering a table\<close>

lemma map_of_map_column:
  "map_of (map (\<lambda>c. (fst c, f (snd c))) xs) k = map_option f (map_of xs k)"
  by (induction xs) auto

lemma getitem_Some: "getitem df name = Inr s \<Longrightarrow> map_of (cols df) name = Some s"
  by (simp add: getitem_def split: option.splits)

lemma getitem_getitem_mask:
  "getitem (getitem_mask df msk) name =
     (case getitem df name of Inl e \<Rightarrow> Inl e | Inr s \<Rightarrow> Inr (select msk s))"
  using map_of_map_column [of "select msk" "cols df" name]
  by (simp add: getitem_def getitem_mask_def split: option.splits)

lemma column_names_getitem_mask: "column_names (getitem_mask df msk) = column_names df"
  by (simp add: getitem_mask_def column_names_def comp_def)

lemma wf_column_length:
  "wf_dataframe df \<Longrightarrow> getitem df name = Inr s \<Longrightarrow> length s = length (index df)"
  by (auto simp: wf_dataframe_def list_all_iff dest!: getitem_in_cols)

lemma row_value_row_at:
  "row_value (row_at df i) name = map_option (\<lambda>s. s ! i) (map_of (cols df) name)"
  using map_of_map_column [of "\<lambda>s. s ! i" "cols df" name]
  by (simp add: row_value_def row_at_def)

lemma rows_of_getitem_mask:
  assumes wf: "wf_dataframe df" and len: "length msk = length (index df)"
  shows "rows_of (getitem_mask df msk) = map (row_at df) (picked msk)"
proof -
  let ?fdf = "getitem_mask df msk"
  have idx: "index ?fdf = map (\<lambda>i. index df ! i) (picked msk)"
    using len by (simp add: getitem_mask_def select_picked)
  have cls: "cols ?fdf = map (\<lambda>c. (fst c, map (\<lambda>i. snd c ! i) (picked msk))) (cols df)"
  proof -
    have "select msk (snd c) = map (\<lambda>i. snd c ! i) (picked msk)" if "c \<in> set (cols df)" for c
    proof -
      from wf that have "length (snd c) = length (index df)"
        by (simp add: wf_dataframe_def list_all_iff)
      with len show ?thesis
        by (simp add: select_picked)
    qed
    then show ?thesis
      by (simp add: getitem_mask_def)
  qed
  have row: "row_at ?fdf j = row_at df (picked msk ! j)" if "j < length (picked msk)" for j
    using that by (simp add: row_at_def idx cls comp_def)
  have "rows_of ?fdf = map (row_at ?fdf) [0..<length (picked msk)]"
    by (simp add: rows_of_def idx)
  also have "\<dots> = map (\<lambda>j. row_at df (picked msk ! j)) [0..<length (picked msk)]"
    using row by simp
  also have "\<dots> = map (row_at df) (map (\<lambda>j. picked msk ! j) [0..<length (picked msk)])"
    by (simp add: comp_def)
  also have "\<dots> = map (row_at df) (picked msk)"
    by (simp only: map_nth)
  finally show ?thesis .
qed

lemma wf_getitem_mask:
  assumes wf: "wf_dataframe df" and len: "length msk = length (index df)"
  shows "wf_dataframe (getitem_mask df msk)"
proof -
  have "length (select msk (snd c)) = length (select msk (index df))"
    if "c \<in> set (cols df)" for c
  proof -
    from wf that have "length (snd c) = length (index df)"
      by (simp add: wf_dataframe_def list_all_iff)
    with len show ?thesis
      by (simp add: select_picked)
  qed
  moreover have "distinct (column_names (getitem_mask df msk))"
    using wf by (simp add: column_names_getitem_mask wf_dataframe_def)
  ultimately show ?thesis
    by (simp add: wf_dataframe_def list_all_iff) (simp add: getitem_mask_def)
qed

section \<open>The scenario table and the header-only table\<close>

lemma scenario_wf: "wf_dataframe scenario_table" "wf_dataframe scenario_loaded"
  by (simp_all add: wf_dataframe_def scenario_table_def scenario_loaded_def column_names_def
      setitem_def)

lemma scenario_load: "load_data (Parsed scenario_table) = ([], Inr (Some scenario_loaded))"
  by (simp add: load_data_def scenario_table_def scenario_loaded_def column_names_def getitem_def
      setitem_def apply_series_def churn_flag_def)

lemma scenario_columns:
  "getitem scenario_loaded ''Contract'' =
     Inr [Str ''Month-to-month'', Str ''Month-to-month'', Str ''Two year'']"
  "getitem scenario_loaded ''InternetService'' = Inr [Str ''DSL'', Str ''Fiber optic'', Str ''DSL'']"
  "column_names scenario_loaded =
     [''Contract'', ''InternetService'', ''tenure_bucket'', ''Churn'', ''churn_label'']"
  "column_names scenario_segment =
     [''Contract'', ''InternetService'', ''tenure_bucket'', ''Churn'', ''churn_label'']"
  by (simp_all add: scenario_table_def scenario_loaded_def scenario_segment_def column_names_def
      getitem_def setitem_def)

lemma round64_values:
  "round64 0 = Val 0"
  "round64 1 = Val 1"
  "round64 (1 / 2) = Val (1 / 2)"
  "round64 (1 / 3) = Val (6004799503160661 / 18014398509481984)"
  by code_simp+

lemma scenario_delta:
  "fsub (Val (1 / 2)) (Val (6004799503160661 / 18014398509481984)) =
     Val (3002399751580331 / 18014398509481984)"
  by code_simp

lemma scenario_overall:
  "overall_churn_rate scenario_loaded = Inr (Val (6004799503160661 / 18014398509481984))"
  by (simp add: overall_churn_rate_def scenario_table_def scenario_loaded_def column_names_def
      getitem_def setitem_def mean_def round64_values)

lemma scenario_filter:
  "filtered_df scenario_loaded [Str ''Month-to-month'']
     (unique [Str ''DSL'', Str ''Fiber optic'', Str ''DSL'']) = Inr scenario_segment"
  by (simp add: filtered_df_def scenario_table_def scenario_loaded_def scenario_segment_def
      column_names_def getitem_def setitem_def getitem_mask_def mask_and_def isin_def
      unique_def)

lemma scenario_rate:
  "len scenario_segment = 2" "segment_churn_rate scenario_segment = Inr (Val (1 / 2))"
  by (simp_all add: segment_churn_rate_def scenario_segment_def empty_df_def getitem_def
      mean_def len_def round64_values)

lemma scenario_page:
  "fst (page scenario_loaded scenario_choice) ! 4 =
     Metric ''Total Customers in Segment'' (Count 2) None"
  "fst (page scenario_loaded scenario_choice) ! 5 =
     Metric ''Overall Churn Rate'' (Percent (Val (6004799503160661 / 18014398509481984))) None"
  "fst (page scenario_loaded scenario_choice) ! 6 =
     Metric ''Segment Churn Rate'' (Percent (Val (1 / 2)))
       (Some (Percent (Val (3002399751580331 / 18014398509481984))))"
  "snd (page scenario_loaded scenario_choice) = Completed"
  by (simp_all add: page_def Let_def scenario_columns scenario_choice_def multiselect_def
      scenario_filter scenario_overall scenario_rate scenario_delta px_histogram_def)

lemma scenario_dashboard:
  "dashboard (Parsed scenario_table) ch =
     (Title dashboard_title # fst (page scenario_loaded ch),
      snd (page scenario_loaded ch))"
  by (cases "page scenario_loaded ch") (simp add: dashboard_def scenario_load)

lemma header_only_load:
  "load_data (Parsed header_only_table) = ([], Inr (Some header_only_loaded))"
  by (simp add: load_data_def header_only_table_def column_names_def getitem_def setitem_def
      apply_series_def header_only_loaded_def)

lemma header_only_overall: "overall_churn_rate header_only_loaded = Inr NaN"
  by (simp add: overall_churn_rate_def header_only_table_def column_names_def getitem_def
      setitem_def mean_def header_only_loaded_def)

lemma header_only_columns:
  "getitem header_only_loaded ''Contract'' = Inr []"
  "getitem header_only_loaded ''InternetService'' = Inr []"
  "getitem_mask header_only_loaded [] = header_only_loaded"
  "empty_df header_only_loaded"
  "column_names header_only_loaded =
     [''Contract'', ''InternetService'', ''tenure_bucket'', ''Churn'', ''churn_label'']"
  by (simp_all add: header_only_table_def column_names_def getitem_def setitem_def
      header_only_loaded_def getitem_mask_def empty_df_def)

lemma header_only_page:
  "fst (page header_only_loaded no_choice) ! 5 = Metric ''Overall Churn Rate'' (Percent NaN) None"
  "snd (page header_only_loaded no_choice) = Completed"
  by (simp_all add: header_only_overall header_only_columns page_def no_choice_def
      multiselect_def Let_def filtered_df_def segment_churn_rate_def px_histogram_def
      mask_and_def isin_def unique_def)

lemma header_only_dashboard:
  "dashboard (Parsed header_only_table) ch =
     (Title dashboard_title # fst (page header_only_loaded ch),
      snd (page header_only_loaded ch))"
  by (cases "page header_only_loaded ch") (simp add: dashboard_def header_only_load)

section \<open>The filter\<close>

text \<open>
  C2. For a table with a \<^verbatim>\<open>Contract\<close> and an \<^verbatim>\<open>InternetService\<close> column and any
  two selections, lines 65 to 68 return a table with the same columns whose rows are
  exactly the rows of the table whose contract type is in the selected contract types and
  whose internet service is in the selected internet services, in the order of the table.
  The result is a function of the table and the two selections, so equal inputs give
  equal results.
\<close>

theorem filtered_df_rows:
  assumes wf: "wf_dataframe df"
    and contract: "''Contract'' \<in> set (column_names df)"
    and internet: "''InternetService'' \<in> set (column_names df)"
  shows "\<exists>fdf. filtered_df df contract_filter internet_filter = Inr fdf \<and>
           wf_dataframe fdf \<and> column_names fdf = column_names df \<and>
           rows_of fdf = filter (row_selected contract_filter internet_filter) (rows_of df)"
proof -
  from contract obtain c where c: "getitem df ''Contract'' = Inr c"
    using getitem_Inr_iff by blast
  from internet obtain i where i: "getitem df ''InternetService'' = Inr i"
    using getitem_Inr_iff by blast
  let ?n = "length (index df)"
  let ?msk = "mask_and (isin c contract_filter) (isin i internet_filter)"
  let ?fdf = "getitem_mask df ?msk"
  have lc: "length c = ?n" and li: "length i = ?n"
    using wf_column_length [OF wf c] wf_column_length [OF wf i] by simp_all
  have len: "length ?msk = ?n"
    by (simp add: length_mask_and length_isin lc li)
  have at: "?msk ! k = row_selected contract_filter internet_filter (row_at df k)"
    if "k < ?n" for k
    using that lc li
    by (simp add: mask_and_def isin_def row_selected_def row_value_row_at
        getitem_Some [OF c] getitem_Some [OF i])
  have "rows_of ?fdf = map (row_at df) (picked ?msk)"
    using wf len by (rule rows_of_getitem_mask)
  also have "picked ?msk =
      filter (\<lambda>k. row_selected contract_filter internet_filter (row_at df k)) [0..<?n]"
    unfolding picked_def len using at by (intro filter_cong) simp_all
  also have "map (row_at df) \<dots> =
      filter (row_selected contract_filter internet_filter) (rows_of df)"
    by (simp add: rows_of_def filter_map comp_def)
  finally have "rows_of ?fdf =
      filter (row_selected contract_filter internet_filter) (rows_of df)" .
  moreover have "filtered_df df contract_filter internet_filter = Inr ?fdf"
    by (simp add: filtered_df_def c i)
  moreover have "wf_dataframe ?fdf"
    using wf len by (rule wf_getitem_mask)
  moreover have "column_names ?fdf = column_names df"
    by (rule column_names_getitem_mask)
  ultimately show ?thesis
    by blast
qed

theorem filtered_df_rows_witness:
  "wf_dataframe scenario_loaded \<and>
   ''Contract'' \<in> set (column_names scenario_loaded) \<and>
   ''InternetService'' \<in> set (column_names scenario_loaded) \<and>
   (\<exists>fdf. filtered_df scenario_loaded [Str ''Two year''] [Str ''DSL''] = Inr fdf \<and>
      wf_dataframe fdf \<and> column_names fdf = column_names scenario_loaded \<and>
      rows_of fdf = filter (row_selected [Str ''Two year''] [Str ''DSL'']) (rows_of scenario_loaded))"
proof -
  have c: "''Contract'' \<in> set (column_names scenario_loaded)"
    by (simp add: scenario_columns)
  have i: "''InternetService'' \<in> set (column_names scenario_loaded)"
    by (simp add: scenario_columns)
  from c i scenario_wf(2) filtered_df_rows [OF scenario_wf(2) c i] show ?thesis
    by blast
qed

text \<open>
  C4. For a table with a \<^verbatim>\<open>Contract\<close> and an \<^verbatim>\<open>InternetService\<close> column (without
  them line 53 or 60 raises before there is a selection), if the selected contract types
  or the selected internet services are empty, then the filtered table has no rows, every
  column of it is empty, and the segment churn rate is 0.0.
\<close>

theorem empty_selection:
  assumes contract: "''Contract'' \<in> set (column_names df)"
    and internet: "''InternetService'' \<in> set (column_names df)"
    and empty: "set contract_filter = {} \<or> set internet_filter = {}"
  shows "\<exists>fdf. filtered_df df contract_filter internet_filter = Inr fdf \<and>
           len fdf = 0 \<and> empty_df fdf \<and> column_names fdf = column_names df \<and>
           list_all (\<lambda>c. snd c = []) (cols fdf) \<and>
           segment_churn_rate fdf = Inr (Val 0)"
proof -
  from contract obtain c where c: "getitem df ''Contract'' = Inr c"
    using getitem_Inr_iff by blast
  from internet obtain i where i: "getitem df ''InternetService'' = Inr i"
    using getitem_Inr_iff by blast
  let ?msk = "mask_and (isin c contract_filter) (isin i internet_filter)"
  let ?fdf = "getitem_mask df ?msk"
  have none: "\<forall>b \<in> set ?msk. \<not> b"
    using empty
  proof
    assume "set contract_filter = {}"
    then show ?thesis
      by (intro mask_and_False_left isin_no_values)
  next
    assume "set internet_filter = {}"
    then show ?thesis
      by (intro mask_and_False_right isin_no_values)
  qed
  have sel: "select ?msk xs = []" for xs :: "'b list"
    using none by (rule select_none)
  have "filtered_df df contract_filter internet_filter = Inr ?fdf"
    by (simp add: filtered_df_def c i)
  moreover have "index ?fdf = []"
    by (simp add: getitem_mask_def sel)
  moreover have "list_all (\<lambda>c. snd c = []) (cols ?fdf)"
    by (simp add: getitem_mask_def sel list_all_iff)
  moreover have "column_names ?fdf = column_names df"
    by (rule column_names_getitem_mask)
  ultimately show ?thesis
    by (simp add: len_def empty_df_def segment_churn_rate_def)
qed

theorem empty_selection_witness:
  "''Contract'' \<in> set (column_names scenario_loaded) \<and>
   ''InternetService'' \<in> set (column_names scenario_loaded) \<and>
   (set ([] :: cell list) = {} \<or> set [Str ''DSL'', Str ''Fiber optic''] = {}) \<and>
   (\<exists>fdf. filtered_df scenario_loaded [] [Str ''DSL'', Str ''Fiber optic''] = Inr fdf \<and>
      len fdf = 0 \<and> empty_df fdf \<and> column_names fdf = column_names scenario_loaded \<and>
      list_all (\<lambda>c. snd c = []) (cols fdf) \<and>
      segment_churn_rate fdf = Inr (Val 0))"
proof -
  have c: "''Contract'' \<in> set (column_names scenario_loaded)"
    by (simp add: scenario_columns)
  have i: "''InternetService'' \<in> set (column_names scenario_loaded)"
    by (simp add: scenario_columns)
  have e: "set ([] :: cell list) = {} \<or> set [Str ''DSL'', Str ''Fiber optic''] = {}"
    by simp
  from c i e empty_selection [OF c i e] show ?thesis
    by blast
qed

text \<open>
  C5. For a table whose columns all have one cell per row, if the selected contract types
  are the distinct values of its \<^verbatim>\<open>Contract\<close> column and the selected internet
  services the distinct values of its \<^verbatim>\<open>InternetService\<close> column, in any order, then
  the filtered table is the table itself.
\<close>

theorem full_selection_identity:
  assumes wf: "wf_dataframe df"
    and c: "getitem df ''Contract'' = Inr contract"
    and i: "getitem df ''InternetService'' = Inr internet"
    and cf: "set contract_filter = set (unique contract)"
    and inf: "set internet_filter = set (unique internet)"
  shows "filtered_df df contract_filter internet_filter = Inr df"
proof -
  let ?msk = "mask_and (isin contract contract_filter) (isin internet internet_filter)"
  have all: "\<forall>b \<in> set ?msk. b"
    using cf inf by (intro mask_and_True isin_all_values) (simp_all add: set_unique)
  have len: "length ?msk = length (index df)"
    using wf_column_length [OF wf c] wf_column_length [OF wf i]
    by (simp add: length_mask_and length_isin)
  have "select ?msk (index df) = index df"
    using all len by (intro select_all) simp_all
  moreover have "map (\<lambda>c. (fst c, select ?msk (snd c))) (cols df) = cols df"
  proof (rule map_idI)
    fix col assume "col \<in> set (cols df)"
    with wf have "length (snd col) = length (index df)"
      by (simp add: wf_dataframe_def list_all_iff)
    with all len have "select ?msk (snd col) = snd col"
      by (intro select_all) simp_all
    then show "(fst col, select ?msk (snd col)) = col"
      by simp
  qed
  ultimately have "getitem_mask df ?msk = df"
    by (simp add: getitem_mask_def)
  then show ?thesis
    by (simp add: filtered_df_def c i)
qed

theorem full_selection_identity_witness:
  "wf_dataframe scenario_loaded \<and>
   getitem scenario_loaded ''Contract'' =
     Inr [Str ''Month-to-month'', Str ''Month-to-month'', Str ''Two year''] \<and>
   getitem scenario_loaded ''InternetService'' = Inr [Str ''DSL'', Str ''Fiber optic'', Str ''DSL''] \<and>
   set [Str ''Two year'', Str ''Month-to-month''] =
     set (unique [Str ''Month-to-month'', Str ''Month-to-month'', Str ''Two year'']) \<and>
   set [Str ''DSL'', Str ''Fiber optic''] = set (unique [Str ''DSL'', Str ''Fiber optic'', Str ''DSL'']) \<and>
   filtered_df scenario_loaded [Str ''Two year'', Str ''Month-to-month'']
     [Str ''DSL'', Str ''Fiber optic''] = Inr scenario_loaded"
proof -
  have cf: "set [Str ''Two year'', Str ''Month-to-month''] =
      set (unique [Str ''Month-to-month'', Str ''Month-to-month'', Str ''Two year''])"
    by (auto simp: unique_def)
  have inf: "set [Str ''DSL'', Str ''Fiber optic''] =
      set (unique [Str ''DSL'', Str ''Fiber optic'', Str ''DSL''])"
    by (auto simp: unique_def)
  from cf inf scenario_wf(2) scenario_columns(1,2)
    full_selection_identity [OF scenario_wf(2) scenario_columns(1) scenario_columns(2) cf inf]
  show ?thesis
    by blast
qed

section \<open>The churn rates\<close>

lemma values_skipna_Inr_iff: "(\<exists>rs. values_skipna s = Inr rs) \<longleftrightarrow> (\<forall>str. Str str \<notin> set s)"
  by (induction s rule: values_skipna.induct) (auto split: sum.splits)

lemma mean_select:
  assumes "mean s = Inr r"
  shows "\<exists>r'. mean (select msk s) = Inr r'"
proof -
  from assms have "\<exists>rs. values_skipna s = Inr rs"
    by (cases "values_skipna s") (simp_all add: mean_def)
  then have "\<forall>str. Str str \<notin> set s"
    by (simp add: values_skipna_Inr_iff)
  with set_select_subset [of msk s] have "\<forall>str. Str str \<notin> set (select msk s)"
    by blast
  then obtain rs where "values_skipna (select msk s) = Inr rs"
    using values_skipna_Inr_iff by blast
  then show ?thesis
    by (simp add: mean_def)
qed

lemma segment_after_overall:
  assumes "overall_churn_rate df = Inr r"
  shows "\<exists>r'. segment_churn_rate (getitem_mask df msk) = Inr r'"
proof -
  from assms obtain s where s: "getitem df ''churn_label'' = Inr s" and m: "mean s = Inr r"
    by (cases "getitem df ''churn_label''") (simp_all add: overall_churn_rate_def)
  from mean_select [OF m] obtain r' where "mean (select msk s) = Inr r'"
    by blast
  with s show ?thesis
    by (simp add: segment_churn_rate_def getitem_getitem_mask)
qed

text \<open>
  C6. The specification bounds the overall churn rate of every valid table by 0.0 and 1.0.
  Line 73
  takes the mean of the whole \<^verbatim>\<open>churn_label\<close> column with no test for an empty table,
  where line 74 has one for the filtered table. For a file that has its header line and
  no data line, \<^verbatim>\<open>load_data\<close> returns a table with no rows, the overall churn rate is
  NaN, which is neither at least 0.0 nor at most 1.0, and the page shows it; the segment
  churn rate of the same table is 0.0.
\<close>

theorem overall_churn_rate_header_only:
  "wf_dataframe header_only_table \<and>
   load_data (Parsed header_only_table) = ([], Inr (Some header_only_loaded)) \<and>
   overall_churn_rate header_only_loaded = Inr NaN \<and>
   \<not> fle (Val 0) NaN \<and> \<not> fle NaN (Val 1) \<and>
   segment_churn_rate header_only_loaded = Inr (Val 0) \<and>
   fst (dashboard (Parsed header_only_table) no_choice) ! 6 =
     Metric ''Overall Churn Rate'' (Percent NaN) None \<and>
   snd (dashboard (Parsed header_only_table) no_choice) = Completed"
proof -
  have "wf_dataframe header_only_table"
    by (simp add: wf_dataframe_def header_only_table_def column_names_def)
  moreover have "segment_churn_rate header_only_loaded = Inr (Val 0)"
    by (simp add: segment_churn_rate_def header_only_columns)
  ultimately show ?thesis
    by (simp add: header_only_load header_only_overall header_only_dashboard header_only_page)
qed

text \<open>
  C7, as stated: on the three-row table the overall churn rate equals 1/3 and the delta
  equals 1/6. The rates are float64: the mean of 1, 0, 0 is the float nearest to 1/3,
  which is not 1/3, and the delta that the page shows is not 1/6.
\<close>

theorem worked_scenario_exact_counterexample:
  "load_data (Parsed scenario_table) = ([], Inr (Some scenario_loaded)) \<and>
   overall_churn_rate scenario_loaded \<noteq> Inr (Val (1 / 3)) \<and>
   fst (dashboard (Parsed scenario_table) scenario_choice) ! 7 \<noteq>
     Metric ''Segment Churn Rate'' (Percent (Val (1 / 2))) (Some (Percent (Val (1 / 6))))"
  by (simp add: scenario_load scenario_overall scenario_dashboard scenario_page)

text \<open>
  C7, amended. The three-row table with contract types Month-to-month, Month-to-month,
  Two year and churn Yes, No, No loads with labels 1, 0, 0. Its overall churn rate is the
  float64 nearest to 1/3, 6004799503160661/2^54 (0.3333333333333333). With Month-to-month
  selected and every internet service selected the filtered table has 2 rows and segment
  churn rate exactly 0.5. The delta, segment rate minus overall rate in float64, is
  3002399751580331/2^54 (0.16666666666666669). These are the three metrics the page
  shows, and the two rates differ from 1/3 and 1/6 by less than 2^-54.
\<close>

theorem worked_scenario_float64:
  "load_data (Parsed scenario_table) = ([], Inr (Some scenario_loaded)) \<and>
   getitem scenario_loaded ''churn_label'' = Inr [Num (Val 1), Num (Val 0), Num (Val 0)] \<and>
   overall_churn_rate scenario_loaded = Inr (Val (6004799503160661 / 2 ^ 54)) \<and>
   filtered_df scenario_loaded [Str ''Month-to-month'']
     (unique [Str ''DSL'', Str ''Fiber optic'', Str ''DSL'']) = Inr scenario_segment \<and>
   len scenario_segment = 2 \<and>
   segment_churn_rate scenario_segment = Inr (Val (1 / 2)) \<and>
   fsub (Val (1 / 2)) (Val (6004799503160661 / 2 ^ 54)) = Val (3002399751580331 / 2 ^ 54) \<and>
   fst (dashboard (Parsed scenario_table) scenario_choice) ! 5 =
     Metric ''Total Customers in Segment'' (Count 2) None \<and>
   fst (dashboard (Parsed scenario_table) scenario_choice) ! 6 =
     Metric ''Overall Churn Rate'' (Percent (Val (6004799503160661 / 2 ^ 54))) None \<and>
   fst (dashboard (Parsed scenario_table) scenario_choice) ! 7 =
     Metric ''Segment Churn Rate'' (Percent (Val (1 / 2)))
       (Some (Percent (Val (3002399751580331 / 2 ^ 54)))) \<and>
   snd (dashboard (Parsed scenario_table) scenario_choice) = Completed \<and>
   \<bar>6004799503160661 / 2 ^ 54 - 1 / 3 :: rat\<bar> < 1 / 2 ^ 54 \<and>
   \<bar>3002399751580331 / 2 ^ 54 - 1 / 6 :: rat\<bar> < 1 / 2 ^ 54"
proof -
  have "getitem scenario_loaded ''churn_label'' = Inr [Num (Val 1), Num (Val 0), Num (Val 0)]"
    by (simp add: scenario_loaded_def scenario_table_def setitem_def getitem_def column_names_def)
  moreover have "\<bar>6004799503160661 / 2 ^ 54 - 1 / 3 :: rat\<bar> < 1 / 2 ^ 54"
    by simp
  moreover have "\<bar>3002399751580331 / 2 ^ 54 - 1 / 6 :: rat\<bar> < 1 / 2 ^ 54"
    by simp
  ultimately show ?thesis
    by (simp add: scenario_load scenario_overall scenario_filter scenario_rate scenario_delta
        scenario_dashboard scenario_page)
qed

section \<open>What the page shows as the overall rate\<close>

lemma overall_shown_append: "overall_shown (a @ b) = overall_shown a @ overall_shown b"
  by (induction a rule: overall_shown.induct) simp_all

lemma overall_shown_errors: "list_all is_error_text evs \<Longrightarrow> overall_shown evs = []"
  by (induction evs rule: overall_shown.induct) (simp_all add: is_error_text_def)

lemma overall_shown_page:
  "overall_shown (fst (page df ch)) =
     (case getitem df ''Contract'' of
        Inl e \<Rightarrow> []
      | Inr c \<Rightarrow>
          (case getitem df ''InternetService'' of
             Inl e \<Rightarrow> []
           | Inr i \<Rightarrow> (case overall_churn_rate df of Inl e \<Rightarrow> [] | Inr r \<Rightarrow> [Percent r])))"
proof (cases "getitem df ''Contract''")
  case (Inl e)
  then show ?thesis by (simp add: page_def)
next
  case c: (Inr c)
  show ?thesis
  proof (cases "getitem df ''InternetService''")
    case (Inl e)
    with c show ?thesis by (simp add: page_def Let_def)
  next
    case i: (Inr i)
    show ?thesis
    proof (cases "overall_churn_rate df")
      case (Inl e)
      with c i show ?thesis by (simp add: page_def Let_def filtered_df_def)
    next
      case (Inr r)
      let ?cf = "multiselect (unique c) (unique c) (contract_choice ch)"
      let ?inf = "multiselect (unique i) (unique i) (internet_choice ch)"
      from segment_after_overall [OF Inr]
      obtain r' where
        "segment_churn_rate (getitem_mask df (mask_and (isin c ?cf) (isin i ?inf))) = Inr r'"
        by blast
      with c i Inr show ?thesis
        by (simp add: page_def Let_def filtered_df_def overall_shown_append split: sum.split)
    qed
  qed
qed

lemma overall_shown_dashboard:
  "overall_shown (fst (dashboard f ch)) =
     (case snd (load_data f) of
        Inl e \<Rightarrow> []
      | Inr None \<Rightarrow> []
      | Inr (Some df) \<Rightarrow> overall_shown (fst (page df ch)))"
proof (cases "load_data f")
  case (Pair ev r)
  have ev: "overall_shown ev = []"
    using load_data_events_are_errors [of f] Pair by (simp add: overall_shown_errors)
  show ?thesis
  proof (cases r)
    case (Inl e)
    with Pair ev show ?thesis by (simp add: dashboard_def)
  next
    case (Inr loaded)
    show ?thesis
    proof (cases loaded)
      case None
      with Pair Inr ev show ?thesis by (simp add: dashboard_def overall_shown_append)
    next
      case (Some df)
      with Pair Inr ev show ?thesis
        by (cases "page df ch") (simp add: dashboard_def overall_shown_append)
    qed
  qed
qed

lemma page_Completed:
  assumes "snd (page df ch) = Completed"
  shows "\<exists>r. overall_churn_rate df = Inr r \<and> overall_shown (fst (page df ch)) = [Percent r]"
proof -
  from assms obtain c where c: "getitem df ''Contract'' = Inr c"
    by (cases "getitem df ''Contract''") (simp_all add: page_def)
  from assms c obtain i where i: "getitem df ''InternetService'' = Inr i"
    by (cases "getitem df ''InternetService''") (simp_all add: page_def Let_def)
  from assms c i obtain r where r: "overall_churn_rate df = Inr r"
    by (cases "overall_churn_rate df") (simp_all add: page_def Let_def filtered_df_def)
  with c i show ?thesis
    by (simp add: overall_shown_page)
qed

lemma dashboard_Completed:
  assumes "snd (dashboard f ch) = Completed"
  shows "\<exists>df. snd (load_data f) = Inr (Some df) \<and> snd (page df ch) = Completed"
proof (cases "load_data f")
  case (Pair ev r)
  show ?thesis
  proof (cases r)
    case (Inl e)
    with Pair assms show ?thesis by (simp add: dashboard_def)
  next
    case (Inr loaded)
    show ?thesis
    proof (cases loaded)
      case None
      with Pair Inr assms show ?thesis by (simp add: dashboard_def)
    next
      case (Some df)
      with Pair Inr assms show ?thesis
        by (cases "page df ch") (simp add: dashboard_def)
    qed
  qed
qed

text \<open>
  C8. The overall churn rate that the page shows is the same for any two states of the
  two multiselects, on every data file; and on a page that renders to its end it is the
  mean of the \<^verbatim>\<open>churn_label\<close> column of the whole loaded table.
\<close>

theorem overall_rate_independent_of_filters:
  "overall_shown (fst (dashboard f ch1)) = overall_shown (fst (dashboard f ch2)) \<and>
   (snd (dashboard f ch1) = Completed \<longrightarrow>
      (\<exists>df r. snd (load_data f) = Inr (Some df) \<and> overall_churn_rate df = Inr r \<and>
         overall_shown (fst (dashboard f ch1)) = [Percent r]))"
proof
  have "overall_shown (fst (page df ch1)) = overall_shown (fst (page df ch2))" for df
    by (simp add: overall_shown_page)
  then show "overall_shown (fst (dashboard f ch1)) = overall_shown (fst (dashboard f ch2))"
    by (simp add: overall_shown_dashboard split: sum.split option.split)
next
  show "snd (dashboard f ch1) = Completed \<longrightarrow>
      (\<exists>df r. snd (load_data f) = Inr (Some df) \<and> overall_churn_rate df = Inr r \<and>
         overall_shown (fst (dashboard f ch1)) = [Percent r])"
  proof
    assume "snd (dashboard f ch1) = Completed"
    from dashboard_Completed [OF this] obtain df where
      df: "snd (load_data f) = Inr (Some df)" and completed: "snd (page df ch1) = Completed"
      by blast
    from page_Completed [OF completed] obtain r where
      "overall_churn_rate df = Inr r" "overall_shown (fst (page df ch1)) = [Percent r]"
      by blast
    with df show "\<exists>df r. snd (load_data f) = Inr (Some df) \<and> overall_churn_rate df = Inr r \<and>
         overall_shown (fst (dashboard f ch1)) = [Percent r]"
      by (simp add: overall_shown_dashboard)
  qed
qed

theorem overall_rate_independent_of_filters_witness:
  "snd (dashboard (Parsed scenario_table) scenario_choice) = Completed \<and>
   overall_shown (fst (dashboard (Parsed scenario_table) scenario_choice)) =
     overall_shown (fst (dashboard (Parsed scenario_table) no_choice)) \<and>
   (\<exists>df r. snd (load_data (Parsed scenario_table)) = Inr (Some df) \<and>
      overall_churn_rate df = Inr r \<and>
      overall_shown (fst (dashboard (Parsed scenario_table) scenario_choice)) = [Percent r])"
proof -
  have "snd (dashboard (Parsed scenario_table) scenario_choice) = Completed"
    by (simp add: scenario_dashboard scenario_page)
  with overall_rate_independent_of_filters [of "Parsed scenario_table" scenario_choice no_choice]
  show ?thesis
    by blast
qed

end
